theory Spec2Isabelle
  imports Complex_Main "HOL-Library.AList"
begin

section \<open>Command line arguments\<close>


section \<open>Python values used by benchmark.py\<close>

text \<open>
  The exceptions that the modelled code can raise or let through. \<open>RuntimeError\<close> is what
  the PyTorch runner catches; \<open>ZeroDivisionError\<close> comes from the two float divisions of
  \<open>get_latency_result\<close> and \<open>OverflowError\<close> from its conversion of the batch size to a
  float; \<open>AssertionError\<close> from the \<open>assert\<close> statements;
  \<open>ValueError\<close> from \<open>csv.DictWriter.writerow\<close> on a key that is not a field name;
  \<open>StopIteration\<close> from \<open>next(iter(...))\<close> on an empty dictionary;
  \<open>KeyError\<close> from a dictionary lookup; \<open>OnnxRuntimeFail\<close> is onnxruntime's
  \<open>Fail\<close>, which \<open>create_onnxruntime_session\<close> catches; \<open>OSError\<close> is what
  \<open>main\<close> catches around \<open>os.mkdir\<close>; \<open>NameError\<close> comes from the names \<open>torch\<close>
  and \<open>AutoModel\<close>, which the module binds only when \<open>is_torch_available()\<close>;
  \<open>OtherException\<close> stands for every other exception of an external call.
\<close>

datatype py_exception =
  RuntimeError | ZeroDivisionError | OverflowError | AssertionError | ValueError | StopIteration
  | KeyError | OnnxRuntimeFail | OSError | NameError | OtherException

section \<open>Rendering integers\<close>

definition digit_char :: "nat \<Rightarrow> char" where
  "digit_char n = ''0123456789'' ! (n mod 10)"

text \<open>\<open>str(n)\<close> for a non-negative integer.\<close>

function str_nat :: "nat \<Rightarrow> string" where
  "str_nat n = (if n < 10 then [digit_char n] else str_nat (n div 10) @ [digit_char n])"
  by pat_completeness auto
termination
  by (relation "measure (\<lambda>n. n)") auto

declare str_nat.simps [simp del]


section \<open>Statistics Reducer: get_latency_result\<close>

text \<open>
  The durations are IEEE-754 doubles. Their arithmetic is not defined here: the type
  \<open>'f\<close> of the floats is a parameter, and so are the operations of Python and numpy that
  \<open>get_latency_result\<close> applies to them, each named after the expression of the source
  that it stands for:
  \<^item> \<open>py_sum\<close>: \<open>sum(runtimes)\<close> on a non-empty list of floats;
  \<^item> \<open>float_of_len\<close>: \<open>float(len(runtimes))\<close>;
  \<^item> \<open>float_1000\<close>: the literal \<open>1000.0\<close>;
  \<^item> \<open>float_is_zero\<close>: whether a float is a zero, which is when a division by it raises
    \<open>ZeroDivisionError\<close>;
  \<^item> \<open>float_div\<close>: \<open>x / y\<close> for a non-zero \<open>y\<close>;
  \<^item> \<open>float_mul\<close>: \<open>x * y\<close>;
  \<^item> \<open>int_mul_float\<close>: \<open>i * y\<close> for an integer \<open>i\<close>, which converts \<open>i\<close> to a float and
    raises \<open>OverflowError\<close> when \<open>i\<close> is too large for that;
  \<^item> \<open>numpy_var\<close>: \<open>numpy.var(runtimes, dtype=numpy.float64)\<close>, by numpy's
    documentation the population variance (\<open>ddof=0\<close>);
  \<^item> \<open>numpy_percentile\<close>: \<open>numpy.percentile(runtimes, q)\<close>;
  \<^item> \<open>format_2f\<close>: \<open>"{:.2f}".format(x)\<close>.
\<close>

record 'f float_lib =
  py_sum :: "'f list \<Rightarrow> 'f"
  float_of_len :: "nat \<Rightarrow> 'f"
  float_1000 :: 'f
  float_is_zero :: "'f \<Rightarrow> bool"
  float_div :: "'f \<Rightarrow> 'f \<Rightarrow> 'f"
  float_mul :: "'f \<Rightarrow> 'f \<Rightarrow> 'f"
  int_mul_float :: "int \<Rightarrow> 'f \<Rightarrow> py_exception + 'f"
  numpy_var :: "'f list \<Rightarrow> 'f"
  numpy_percentile :: "'f list \<Rightarrow> int \<Rightarrow> 'f"
  format_2f :: "'f \<Rightarrow> string"

record latency_result =
  test_times :: nat
  latency_variance :: string
  latency_90_percentile :: string
  latency_95_percentile :: string
  latency_99_percentile :: string
  average_latency_ms :: string
  QPS :: string

text \<open>
  \<open>get_latency_result(runtimes, batch_size)\<close>. The division by \<open>float(len(runtimes))\<close>
  raises on the empty list, the division by \<open>latency_ms\<close> raises when it is zero.
\<close>

definition latency_ms_of :: "'f float_lib \<Rightarrow> 'f list \<Rightarrow> 'f" where
  "latency_ms_of F runtimes =
     float_mul F (float_div F (py_sum F runtimes) (float_of_len F (length runtimes))) (float_1000 F)"

definition get_latency_result ::
  "'f float_lib \<Rightarrow> 'f list \<Rightarrow> int \<Rightarrow> py_exception + latency_result" where
  "get_latency_result F runtimes batch_size =
     (if length runtimes = 0 then Inl ZeroDivisionError
      else let latency_ms = latency_ms_of F runtimes;
               latency_variance = float_mul F (numpy_var F runtimes) (float_1000 F)
           in if float_is_zero F latency_ms then Inl ZeroDivisionError
              else case int_mul_float F batch_size (float_div F (float_1000 F) latency_ms) of
                     Inl e \<Rightarrow> Inl e
                   | Inr throughput \<Rightarrow>
                       Inr \<lparr> test_times = length runtimes,
                             latency_variance = format_2f F latency_variance,
                             latency_90_percentile =
                               format_2f F (float_mul F (numpy_percentile F runtimes 90) (float_1000 F)),
                             latency_95_percentile =
                               format_2f F (float_mul F (numpy_percentile F runtimes 95) (float_1000 F)),
                             latency_99_percentile =
                               format_2f F (float_mul F (numpy_percentile F runtimes 99) (float_1000 F)),
                             average_latency_ms = format_2f F latency_ms,
                             QPS = format_2f F throughput \<rparr>)"

section \<open>Program state, exceptions and loops\<close>

text \<open>
  The values stored in the dictionaries that reach the CSV writers: strings, integers
  and booleans. \<open>py_str\<close> is Python's \<open>str\<close>, which \<open>csv\<close> applies to every cell.
\<close>

datatype pyval = PyStr string | PyInt int | PyBool bool




text \<open>
  The records of the logger at level WARNING and above: \<open>logger.warning\<close>,
  \<open>logger.error\<close> and \<open>logger.exception\<close> (which logs the exception it is given). The
  records of \<open>logger.info\<close> and \<open>logger.debug\<close> are not modelled.
\<close>

datatype log_record = LogWarning string | LogError string | LogException py_exception

text \<open>
  A dictionary is an association list in insertion order; \<open>AList.update\<close> is the
  assignment \<open>d[k] = v\<close> (it replaces the value of a present key in place and appends a
  new key). \<open>dict_update d e\<close> is \<open>d.update(e)\<close>.
\<close>

type_synonym ('k, 'v) dict = "('k \<times> 'v) list"


text \<open>
  The state of a run: the state \<open>world\<close> of everything outside benchmark.py (the
  frameworks, the devices, the model files), the log, the module-level dictionary
  \<open>optimize_model_statistics\<close>, and the CSV files as lists of rows of cells.
\<close>

record 'w state =
  world :: 'w
  log :: "log_record list"
  optimize_model_statistics :: "(string, (string, pyval) dict) dict"
  files :: "string \<Rightarrow> string list list option"

text \<open>
  A statement maps a state to an outcome and a state: \<open>Inl e\<close> when it raises \<open>e\<close>,
  \<open>Inr v\<close> when it completes with the value \<open>v\<close>. The state changes made before a raise
  persist.
\<close>

type_synonym ('a, 's) py = "'s \<Rightarrow> (py_exception + 'a) \<times> 's"

definition py_return :: "'a \<Rightarrow> ('a, 's) py" where
  "py_return a s = (Inr a, s)"

definition py_raise :: "py_exception \<Rightarrow> ('a, 's) py" where
  "py_raise e s = (Inl e, s)"

definition py_bind :: "('a, 's) py \<Rightarrow> ('a \<Rightarrow> ('b, 's) py) \<Rightarrow> ('b, 's) py" where
  "py_bind m f s = (case m s of (Inl e, s') \<Rightarrow> (Inl e, s') | (Inr a, s') \<Rightarrow> f a s')"

text \<open>\<open>try: m except <handled>: h\<close>.\<close>

definition py_try ::
  "('a, 's) py \<Rightarrow> (py_exception \<Rightarrow> bool) \<Rightarrow> (py_exception \<Rightarrow> ('a, 's) py) \<Rightarrow> ('a, 's) py" where
  "py_try m handled h s =
     (case m s of (Inl e, s') \<Rightarrow> if handled e then h e s' else (Inl e, s')
                | (Inr a, s') \<Rightarrow> (Inr a, s'))"

text \<open>
  \<open>for x in xs: body\<close>, with the local variables that the body assigns as the
  accumulator \<open>acc\<close>. \<open>continue\<close> is the body returning the accumulator.
\<close>

fun for_loop :: "('a \<Rightarrow> 'r \<Rightarrow> ('r, 's) py) \<Rightarrow> 'a list \<Rightarrow> 'r \<Rightarrow> ('r, 's) py" where
  "for_loop body [] acc s = (Inr acc, s)"
| "for_loop body (x # xs) acc s =
     (case body x acc s of (Inl e, s') \<Rightarrow> (Inl e, s') | (Inr acc', s') \<Rightarrow> for_loop body xs acc' s')"

text \<open>A pure computation that may raise, as a statement.\<close>

definition py_lift :: "py_exception + 'a \<Rightarrow> ('a, 's) py" where
  "py_lift r s = (r, s)"

text \<open>A call into the world outside benchmark.py.\<close>

definition external :: "('w \<Rightarrow> (py_exception + 'a) \<times> 'w) \<Rightarrow> ('a, 'w state) py" where
  "external f s = (case f (world s) of (r, w') \<Rightarrow> (r, s\<lparr>world := w'\<rparr>))"

definition logger :: "log_record \<Rightarrow> (unit, 'w state) py" where
  "logger r s = (Inr (), s\<lparr>log := log s @ [r]\<rparr>)"

section \<open>CSV output\<close>






section \<open>Result records and the world outside benchmark.py\<close>

text \<open>
  The dictionary \<open>result\<close> that both runners build: the nine keys of the literal, then
  the keys of \<open>get_latency_result\<close> by \<open>result.update\<close>. The value of \<open>optimize\<close> is a
  boolean for onnxruntime and the empty string for PyTorch.
\<close>

record result = latency_result +
  r_engine :: string
  r_version :: string
  r_device :: string
  r_optimize :: pyval
  r_fp16 :: bool
  r_model_name :: string
  r_inputs :: int
  r_batch_size :: int
  r_sequence_length :: int

definition make_result ::
  "string \<Rightarrow> string \<Rightarrow> string \<Rightarrow> pyval \<Rightarrow> bool \<Rightarrow> string \<Rightarrow> int \<Rightarrow> int \<Rightarrow> int \<Rightarrow> latency_result
   \<Rightarrow> result" where
  "make_result e v d opt f m i b s st =
     \<lparr> test_times = test_times st,
       latency_variance = latency_variance st,
       latency_90_percentile = latency_90_percentile st,
       latency_95_percentile = latency_95_percentile st,
       latency_99_percentile = latency_99_percentile st,
       average_latency_ms = average_latency_ms st,
       QPS = QPS st,
       r_engine = e, r_version = v, r_device = d, r_optimize = opt, r_fp16 = f,
       r_model_name = m, r_inputs = i, r_batch_size = b, r_sequence_length = s \<rparr>"


text \<open>
  What the loaders of the transformers library tell about a pretrained model: the fields
  of its configuration that benchmark.py reads, \<open>tokenizer.max_model_input_sizes[model_name]\<close>
  (\<open>None\<close> when the size is unknown), and whether the example outputs are a list or tuple.
\<close>

record pretrained =
  config_vocab_size :: int
  config_max_input_size :: "int option"
  config_num_attention_heads :: int
  config_hidden_size :: int
  outputs_is_sequence :: bool

text \<open>
  The calls that leave benchmark.py: transformers, torch, onnxruntime, numpy,
  bert_model_optimization, the file system and the clock. Each is a function on the state
  of the world that returns a value or raises. \<open>floats\<close> are the float operations of
  Python and numpy.
  \<^item> \<open>from_pretrained model_name torchscript cache_dir\<close>: lines 332 to 335;
  \<^item> \<open>model_to model_name fp16 device\<close>: \<open>model.half()\<close> when \<open>fp16\<close>, then
    \<open>model.to(device)\<close>;
  \<open>torch_randint high batch_size sequence_length device\<close>: the input tensor;
  \<^item> \<open>jit_trace model_name batch_size sequence_length\<close>: \<open>torch.jit.trace\<close>;
  \<^item> \<open>inference model_name torchscript batch_size sequence_length\<close>: one call of the model
    on the input tensor, with the seconds it took;
  \<^item> \<open>example_of_pretrained model_name cache_dir input_names\<close>: lines 192 to 201;
  \<^item> \<open>path_exists\<close>: \<open>os.path.exists\<close>; \<open>os_mkdir\<close>: \<open>os.mkdir\<close>;
  \<^item> \<open>torch_onnx_export model_name filename input_names\<close>: \<open>torch.onnx.export\<close>;
  \<^item> \<open>inference_session path use_gpu providers\<close>: \<open>onnxruntime.InferenceSession\<close>;
  \<^item> \<open>session_run_example filename\<close>: the run of the test session on the example inputs;
    it returns the number of expected output tensors and, for each output tensor of the
    session, whether \<open>numpy.allclose\<close> holds of it and the expected tensor;
  \<^item> \<open>optimize_model filename model_type num_heads hidden_size only_onnxruntime\<close>:
    \<open>bert_opt.optimize_model\<close> followed by \<open>get_fused_operator_statistics\<close>;
  \<^item> \<open>save_model_to_file filename fp16\<close>: the conversion to float16 when \<open>fp16\<close>, then
    \<open>save_model_to_file\<close>;
  \<^item> \<open>numpy_randint high batch_size sequence_length\<close>: \<open>numpy.random.randint\<close>;
  \<^item> \<open>session_run path input_names batch_size sequence_length\<close>: one \<open>ort_session.run\<close>,
    with the seconds it took;
  \<^item> \<open>time_stamp\<close>: \<open>datetime.now().strftime("%Y%m%d-%H%M%S")\<close>.
\<close>

record ('f, 'w) env =
  floats :: "'f float_lib"
  is_torch_available :: bool
  torch_cuda_is_available :: bool
  torch_version :: string
  onnxruntime_version :: string
  get_available_providers :: "string list"
  from_pretrained :: "string \<Rightarrow> bool \<Rightarrow> string \<Rightarrow> (pretrained, 'w) py"
  model_to :: "string \<Rightarrow> bool \<Rightarrow> string \<Rightarrow> (unit, 'w) py"
  torch_randint :: "int \<Rightarrow> int \<Rightarrow> int \<Rightarrow> string \<Rightarrow> (unit, 'w) py"
  jit_trace :: "string \<Rightarrow> int \<Rightarrow> int \<Rightarrow> (unit, 'w) py"
  inference :: "string \<Rightarrow> bool \<Rightarrow> int \<Rightarrow> int \<Rightarrow> ('f, 'w) py"
  cuda_empty_cache :: "'w \<Rightarrow> 'w"
  example_of_pretrained :: "string \<Rightarrow> string \<Rightarrow> string list \<Rightarrow> (pretrained, 'w) py"
  path_exists :: "string \<Rightarrow> 'w \<Rightarrow> bool"
  os_mkdir :: "string \<Rightarrow> (unit, 'w) py"
  torch_onnx_export :: "string \<Rightarrow> string \<Rightarrow> string list \<Rightarrow> (unit, 'w) py"
  inference_session :: "string \<Rightarrow> bool \<Rightarrow> string list \<Rightarrow> (unit, 'w) py"
  session_run_example :: "string \<Rightarrow> (nat \<times> bool list, 'w) py"
  optimize_model :: "string \<Rightarrow> string \<Rightarrow> int \<Rightarrow> int \<Rightarrow> bool \<Rightarrow> ((string, pyval) dict, 'w) py"
  save_model_to_file :: "string \<Rightarrow> bool \<Rightarrow> (unit, 'w) py"
  numpy_randint :: "int \<Rightarrow> int \<Rightarrow> int \<Rightarrow> (unit, 'w) py"
  session_run :: "string \<Rightarrow> string list \<Rightarrow> int \<Rightarrow> int \<Rightarrow> ('f, 'w) py"
  time_stamp :: "'w \<Rightarrow> string"

text \<open>
  \<open>timeit.repeat(stmt, number=1, repeat=n)\<close>: the statement runs \<open>n\<close> times in sequence,
  each run timed; the first run that raises ends the sampling with its exception. A
  repeat count below 1 gives the empty list.
\<close>

fun timeit_repeat_nat :: "('f, 's) py \<Rightarrow> nat \<Rightarrow> ('f list, 's) py" where
  "timeit_repeat_nat stmt 0 s = (Inr [], s)"
| "timeit_repeat_nat stmt (Suc n) s =
     (case stmt s of
        (Inl e, s') \<Rightarrow> (Inl e, s')
      | (Inr t, s') \<Rightarrow>
          (case timeit_repeat_nat stmt n s' of
             (Inl e, s'') \<Rightarrow> (Inl e, s'')
           | (Inr ts, s'') \<Rightarrow> (Inr (t # ts), s'')))"

definition timeit_repeat :: "('f, 's) py \<Rightarrow> int \<Rightarrow> ('f list, 's) py" where
  "timeit_repeat stmt repeat = timeit_repeat_nat stmt (nat repeat)"

text \<open>The table \<open>MODELS\<close>: input names, opset version and optimization model type.\<close>

definition MODELS :: "(string, string list \<times> int \<times> string) dict" where
  "MODELS =
     [(''bert-base-cased'', ([''input_ids'', ''attention_mask'', ''token_type_ids''], 11, ''bert'')),
      (''distilbert-base-uncased'', ([''input_ids'', ''attention_mask''], 11, ''bert'')),
      (''roberta-base'', ([''input_ids'', ''attention_mask''], 11, ''bert'')),
      (''gpt2'', ([''input_ids''], 11, ''gpt2'')),
      (''distilgpt2'', ([''input_ids''], 11, ''gpt2'')),
      (''openai-gpt'', ([''input_ids''], 11, ''gpt2'')),
      (''albert-base-v2'', ([''input_ids''], 12, ''bert'')),
      (''xlnet-base-cased'', ([''input_ids''], 12, ''bert''))]"

text \<open>\<open>d[k]\<close>, which raises \<open>KeyError\<close> on an absent key.\<close>

definition dict_get :: "('k, 'v) dict \<Rightarrow> 'k \<Rightarrow> ('v, 's) py" where
  "dict_get d k = (case map_of d k of None \<Rightarrow> py_raise KeyError | Some v \<Rightarrow> py_return v)"

text \<open>The slice \<open>xs[:n]\<close>.\<close>

definition slice_to :: "'a list \<Rightarrow> int \<Rightarrow> 'a list" where
  "slice_to xs n = (if 0 \<le> n then take (nat n) xs else take (length xs - nat (- n)) xs)"

text \<open>\<open>sub in s\<close> for strings.\<close>

definition str_contains :: "string \<Rightarrow> string \<Rightarrow> bool" where
  "str_contains sub s = list_ex (\<lambda>i. take (length sub) (drop i s) = sub) [0..<Suc (length s)]"

text \<open>\<open>s.replace(old, new)\<close> for a non-empty \<open>old\<close>: every occurrence, from the left.\<close>

function str_replace :: "string \<Rightarrow> string \<Rightarrow> string \<Rightarrow> string" where
  "str_replace old new s =
     (if s = [] \<or> old = [] then s
      else if take (length old) s = old then new @ str_replace old new (drop (length old) s)
      else hd s # str_replace old new (tl s))"
  by pat_completeness auto
termination
  by (relation "measure (\<lambda>(old, new, s). length s)") auto

declare str_replace.simps [simp del]

section \<open>Preparing the ONNX model\<close>

text \<open>\<open>create_onnxruntime_session\<close>: the session, or \<open>None\<close> after onnxruntime's \<open>Fail\<close>.
  A session is identified by the path of its model.\<close>

definition create_onnxruntime_session :: "('f, 'w) env \<Rightarrow> string \<Rightarrow> bool \<Rightarrow> (string option, 'w state) py" where
  "create_onnxruntime_session E onnx_model_path use_gpu =
     (let execution_providers =
            (if \<not> use_gpu then [''CPUExecutionProvider'']
             else [''CUDAExecutionProvider'', ''CPUExecutionProvider''])
      in py_try
           (py_bind (external (inference_session E onnx_model_path use_gpu execution_providers))
              (\<lambda>_. py_return (Some onnx_model_path)))
           (\<lambda>e. e = OnnxRuntimeFail)
           (\<lambda>e. py_bind (logger (LogError ''Failed to load model'')) (\<lambda>_. py_return None)))"

text \<open>\<open>create_onnxruntime_input\<close>: the keys of the dictionary of input tensors.\<close>

definition create_onnxruntime_input ::
  "('f, 'w) env \<Rightarrow> int \<Rightarrow> int \<Rightarrow> int \<Rightarrow> string list \<Rightarrow> (string list, 'w state) py" where
  "create_onnxruntime_input E vocab_size batch_size sequence_length input_names =
     py_bind (external (numpy_randint E (vocab_size - 1) batch_size sequence_length))
       (\<lambda>_. py_return
          ([''input_ids'']
           @ (if ''attention_mask'' \<in> set input_names then [''attention_mask''] else [])
           @ (if ''token_type_ids'' \<in> set input_names then [''token_type_ids''] else [])))"

text \<open>\<open>validate_onnx_model\<close>.\<close>

definition validate_onnx_model :: "('f, 'w) env \<Rightarrow> string \<Rightarrow> (bool, 'w state) py" where
  "validate_onnx_model E onnx_model_filename =
     (let use_gpu = str_contains ''_fp16'' onnx_model_filename
      in py_bind (create_onnxruntime_session E onnx_model_filename use_gpu)
           (\<lambda>test_session.
              if test_session = None
              then py_bind (logger (LogError (onnx_model_filename @ '' is an invalid ONNX model'')))
                     (\<lambda>_. py_return False)
              else py_bind (external (session_run_example E onnx_model_filename))
                     (\<lambda>(expected, close).
                        if expected \<noteq> length close
                        then py_bind (logger (LogError ''Number of output tensors differs''))
                               (\<lambda>_. py_return False)
                        else if \<not> list_all (\<lambda>c. c) close
                        then py_bind (logger (LogError ''Value of output tensor is not close to expected result''))
                               (\<lambda>_. py_return False)
                        else py_return True)))"

definition set_statistics :: "string \<Rightarrow> (string, pyval) dict \<Rightarrow> (unit, 'w state) py" where
  "set_statistics key stats s =
     (Inr (), s\<lparr>optimize_model_statistics := AList.update key stats (optimize_model_statistics s)\<rparr>)"

text \<open>\<open>optimize_onnx_model\<close>: the two entries of \<open>optimize_model_statistics\<close> are made
  when the optimized file does not exist yet.\<close>

definition optimize_onnx_model ::
  "('f, 'w) env \<Rightarrow> string \<Rightarrow> string \<Rightarrow> int \<Rightarrow> int \<Rightarrow> bool \<Rightarrow> (string, 'w state) py" where
  "optimize_onnx_model E onnx_model_filename model_type num_heads hidden fp16 =
     (let optimized_model_filename =
            str_replace ''.onnx'' (if fp16 then ''_fp16.onnx'' else ''_fp32.onnx'') onnx_model_filename
      in (\<lambda>s.
           (if \<not> path_exists E optimized_model_filename (world s)
            then py_bind (external (optimize_model E onnx_model_filename model_type
                                      num_heads hidden True))
                   (\<lambda>stats1. py_bind (set_statistics onnx_model_filename stats1)
                   (\<lambda>_. py_bind (external (optimize_model E onnx_model_filename model_type
                                             num_heads hidden False))
                   (\<lambda>stats2. py_bind (set_statistics optimized_model_filename stats2)
                   (\<lambda>_. py_bind (external (save_model_to_file E optimized_model_filename fp16))
                   (\<lambda>_. py_return optimized_model_filename)))))
            else py_return optimized_model_filename) s))"

text \<open>\<open>export_onnx_model\<close>: file name, validity, vocabulary size and maximal input size.\<close>

definition export_onnx_model ::
  "('f, 'w) env \<Rightarrow> string \<Rightarrow> string \<Rightarrow> string list \<Rightarrow> bool \<Rightarrow> bool \<Rightarrow> bool
   \<Rightarrow> (string \<times> bool \<times> int \<times> int option, 'w state) py" where
  "export_onnx_model E model_name cache_dir input_names fp16 optimize_onnx validate_onnx =
     py_bind (external (example_of_pretrained E model_name cache_dir input_names))
     (\<lambda>config.
       if \<not> outputs_is_sequence config then py_raise AssertionError
       else
         (let onnx_model_filename = model_name @ ''_'' @ str_nat (length input_names) @ ''.onnx''
          in py_bind (\<lambda>s. (if \<not> path_exists E onnx_model_filename (world s)
                            then external (torch_onnx_export E model_name onnx_model_filename input_names)
                            else py_return ()) s)
             (\<lambda>_. py_bind (if validate_onnx then validate_onnx_model E onnx_model_filename
                            else py_return True)
             (\<lambda>is_valid_onnx_model.
                if optimize_onnx \<or> fp16
                then py_bind (dict_get MODELS model_name)
                     (\<lambda>entry. py_bind (optimize_onnx_model E onnx_model_filename (snd (snd entry))
                                         (config_num_attention_heads config) (config_hidden_size config) fp16)
                     (\<lambda>optimized. py_bind (if validate_onnx then validate_onnx_model E optimized
                                            else py_return is_valid_onnx_model)
                     (\<lambda>is_valid. py_return (optimized, is_valid, config_vocab_size config,
                                              config_max_input_size config))))
                else py_return (onnx_model_filename, is_valid_onnx_model, config_vocab_size config,
                                config_max_input_size config)))))"

section \<open>Grid Runner: run_onnxruntime\<close>

text \<open>
  The three nested loops of \<open>run_onnxruntime\<close> from the innermost: over the sequence
  lengths (lines 292 to 316), over the batch sizes (lines 289 to 291), and the body of the
  loop over the input counts (lines 273 to 287). The local variable \<open>results\<close> is the
  accumulator of every loop. The name \<open>torch\<close> of line 279 is bound only when
  \<open>is_torch_available()\<close>.
\<close>

definition exceeds :: "int option \<Rightarrow> int \<Rightarrow> bool" where
  "exceeds max_length sequence_length =
     (case max_length of None \<Rightarrow> False | Some m \<Rightarrow> sequence_length > m)"

definition onnxruntime_sequence_length ::
  "('f, 'w) env \<Rightarrow> bool \<Rightarrow> bool \<Rightarrow> bool \<Rightarrow> int \<Rightarrow> string \<Rightarrow> int \<Rightarrow> string list \<Rightarrow> string \<Rightarrow> int
   \<Rightarrow> int option \<Rightarrow> int \<Rightarrow> int \<Rightarrow> result list \<Rightarrow> (result list, 'w state) py" where
  "onnxruntime_sequence_length E use_gpu fp16 optimize_onnx repeat_times model_name num_inputs
     input_names onnx_model_file vocab_size max_sequence_length batch_size sequence_length results =
     (if exceeds max_sequence_length sequence_length then py_return results
      else py_bind (create_onnxruntime_input E vocab_size batch_size sequence_length input_names)
           (\<lambda>ort_input. py_bind (timeit_repeat
                                    (external (session_run E onnx_model_file ort_input batch_size
                                                 sequence_length))
                                    repeat_times)
           (\<lambda>runtimes. py_bind (py_lift (get_latency_result (floats E) runtimes batch_size))
           (\<lambda>stats. py_return
              (results @ [make_result ''onnxruntime'' (onnxruntime_version E)
                            (if use_gpu then ''cuda'' else ''cpu'') (PyBool optimize_onnx) fp16
                            model_name num_inputs batch_size sequence_length stats])))))"

definition onnxruntime_batch_size ::
  "('f, 'w) env \<Rightarrow> bool \<Rightarrow> bool \<Rightarrow> bool \<Rightarrow> int \<Rightarrow> int list \<Rightarrow> string \<Rightarrow> int \<Rightarrow> string list \<Rightarrow> string
   \<Rightarrow> int \<Rightarrow> int option \<Rightarrow> int \<Rightarrow> result list \<Rightarrow> (result list, 'w state) py" where
  "onnxruntime_batch_size E use_gpu fp16 optimize_onnx repeat_times sequence_lengths model_name
     num_inputs input_names onnx_model_file vocab_size max_sequence_length batch_size results =
     (if batch_size \<le> 0 then py_return results
      else for_loop (onnxruntime_sequence_length E use_gpu fp16 optimize_onnx repeat_times
                       model_name num_inputs input_names onnx_model_file vocab_size
                       max_sequence_length batch_size)
             sequence_lengths results)"

definition onnxruntime_num_inputs ::
  "('f, 'w) env \<Rightarrow> bool \<Rightarrow> bool \<Rightarrow> int list \<Rightarrow> int list \<Rightarrow> int \<Rightarrow> bool \<Rightarrow> bool \<Rightarrow> string \<Rightarrow> string
   \<Rightarrow> string list \<Rightarrow> int \<Rightarrow> result list \<Rightarrow> (result list, 'w state) py" where
  "onnxruntime_num_inputs E use_gpu fp16 batch_sizes sequence_lengths repeat_times optimize_onnx
     validate_onnx cache_dir model_name all_input_names num_inputs results =
     (if num_inputs > int (length all_input_names) then py_return results
      else if \<not> is_torch_available E then py_raise NameError
      else
        (let input_names = slice_to all_input_names num_inputs
         in py_bind (export_onnx_model E model_name cache_dir input_names fp16 optimize_onnx
                       validate_onnx)
            (\<lambda>(onnx_model_file, is_valid_onnx_model, vocab_size, max_sequence_length).
               if \<not> is_valid_onnx_model then py_return results
               else py_bind (create_onnxruntime_session E onnx_model_file use_gpu)
                    (\<lambda>ort_session.
                       if ort_session = None then py_return results
                       else for_loop (onnxruntime_batch_size E use_gpu fp16 optimize_onnx
                                        repeat_times sequence_lengths model_name num_inputs
                                        input_names onnx_model_file vocab_size max_sequence_length)
                              batch_sizes results))))"

definition run_onnxruntime ::
  "('f, 'w) env \<Rightarrow> bool \<Rightarrow> string list \<Rightarrow> bool \<Rightarrow> int list \<Rightarrow> int list \<Rightarrow> int \<Rightarrow> int list \<Rightarrow> bool
   \<Rightarrow> bool \<Rightarrow> string \<Rightarrow> bool \<Rightarrow> (result list, 'w state) py" where
  "run_onnxruntime E use_gpu model_names fp16 batch_sizes sequence_lengths repeat_times
     input_counts optimize_onnx validate_onnx cache_dir verbose =
     (if use_gpu \<and> ''CUDAExecutionProvider'' \<notin> set (get_available_providers E)
      then py_bind (logger (LogError ''Please install onnxruntime-gpu package instead of onnxruntime, and use a machine with GPU for testing gpu performance.''))
             (\<lambda>_. py_return [])
      else py_bind (if \<not> use_gpu \<and> ''CUDAExecutionProvider'' \<in> set (get_available_providers E)
                    then logger (LogWarning ''Please install onnxruntime package instead of onnxruntime-gpu to get best cpu performance.'')
                    else py_return ())
           (\<lambda>_. for_loop
                   (\<lambda>model_name results.
                      py_bind (dict_get MODELS model_name)
                        (\<lambda>entry. for_loop
                                    (onnxruntime_num_inputs E use_gpu fp16 batch_sizes
                                       sequence_lengths repeat_times optimize_onnx validate_onnx
                                       cache_dir model_name (fst entry))
                                    input_counts results))
                   model_names []))"

section \<open>Grid Runner: run_pytorch\<close>

text \<open>
  The loops of \<open>run_pytorch\<close> from the innermost: over the sequence lengths (lines 347
  to 384, with the \<open>try\<close> statement of lines 357 to 384), over the batch sizes (lines 339
  to 345), over the model names (lines 331 to 337). Without PyTorch the name \<open>torch\<close> of
  lines 324 and 328 is not bound.
\<close>

definition pytorch_sequence_length ::
  "('f, 'w) env \<Rightarrow> bool \<Rightarrow> bool \<Rightarrow> int \<Rightarrow> bool \<Rightarrow> string \<Rightarrow> pretrained \<Rightarrow> string \<Rightarrow> int \<Rightarrow> int
   \<Rightarrow> result list \<Rightarrow> (result list, 'w state) py" where
  "pytorch_sequence_length E use_gpu fp16 repeat_times torchscript model_name config dev
     batch_size sequence_length results =
     (if exceeds (config_max_input_size config) sequence_length then py_return results
      else py_bind (external (torch_randint E (config_vocab_size config - 1) batch_size sequence_length dev))
           (\<lambda>_. py_try
              (py_bind (if torchscript
                        then py_bind (external (jit_trace E model_name batch_size sequence_length))
                               (\<lambda>_. external (inference E model_name True batch_size sequence_length))
                        else external (inference E model_name False batch_size sequence_length))
              (\<lambda>_. py_bind (timeit_repeat
                               (external (inference E model_name torchscript batch_size sequence_length))
                               repeat_times)
              (\<lambda>runtimes. py_bind (py_lift (get_latency_result (floats E) runtimes batch_size))
              (\<lambda>stats. py_return
                 (results @ [make_result (if torchscript then ''torchscript'' else ''torch'')
                               (torch_version E) dev (PyStr '''') fp16 model_name 1 batch_size
                               sequence_length stats])))))
              (\<lambda>e. e = RuntimeError)
              (\<lambda>e. py_bind (logger (LogException e))
                 (\<lambda>_. py_bind (\<lambda>s. (Inr (), s\<lparr>world := cuda_empty_cache E (world s)\<rparr>))
                 (\<lambda>_. py_return results)))))"

definition pytorch_batch_size ::
  "('f, 'w) env \<Rightarrow> bool \<Rightarrow> bool \<Rightarrow> int list \<Rightarrow> int \<Rightarrow> bool \<Rightarrow> string \<Rightarrow> pretrained \<Rightarrow> int
   \<Rightarrow> result list \<Rightarrow> (result list, 'w state) py" where
  "pytorch_batch_size E use_gpu fp16 sequence_lengths repeat_times torchscript model_name config
     batch_size results =
     (if batch_size \<le> 0 then py_return results
      else
        (let dev = (if use_gpu then ''cuda'' else ''cpu'')
         in py_bind (external (model_to E model_name fp16 dev))
              (\<lambda>_. for_loop (pytorch_sequence_length E use_gpu fp16 repeat_times torchscript
                               model_name config dev batch_size)
                      sequence_lengths results)))"

definition run_pytorch ::
  "('f, 'w) env \<Rightarrow> bool \<Rightarrow> string list \<Rightarrow> bool \<Rightarrow> int list \<Rightarrow> int list \<Rightarrow> int \<Rightarrow> bool \<Rightarrow> string
   \<Rightarrow> bool \<Rightarrow> (result list, 'w state) py" where
  "run_pytorch E use_gpu model_names fp16 batch_sizes sequence_lengths repeat_times torchscript
     cache_dir verbose =
     (if \<not> is_torch_available E then py_raise NameError
      else if use_gpu \<and> \<not> torch_cuda_is_available E
      then py_bind (logger (LogError ''Please install PyTorch with Cuda, and use a machine with GPU for testing gpu performance.''))
             (\<lambda>_. py_return [])
      else for_loop
             (\<lambda>model_name results.
                py_bind (external (from_pretrained E model_name torchscript cache_dir))
                  (\<lambda>config. for_loop (pytorch_batch_size E use_gpu fp16 sequence_lengths
                                        repeat_times torchscript model_name config)
                              batch_sizes results))
             model_names [])"

section \<open>Reporter: output_details, output_summary, output_fusion_statistics\<close>












section \<open>main\<close>










section \<open>Notions used by the properties\<close>

text \<open>
  The maximal input sizes that the loaders report are those of the table \<open>max_size\<close>, as
  \<open>tokenizer.max_model_input_sizes[model_name]\<close> is a constant of the transformers
  library; \<open>None\<close> is an unknown size.
\<close>

definition max_input_sizes :: "('f, 'w) env \<Rightarrow> (string \<Rightarrow> int option) \<Rightarrow> bool" where
  "max_input_sizes E max_size \<longleftrightarrow>
     (\<forall>model_name torchscript cache_dir w config w'.
        from_pretrained E model_name torchscript cache_dir w = (Inr config, w')
        \<longrightarrow> config_max_input_size config = max_size model_name) \<and>
     (\<forall>model_name cache_dir input_names w config w'.
        example_of_pretrained E model_name cache_dir input_names w = (Inr config, w')
        \<longrightarrow> config_max_input_size config = max_size model_name)"

text \<open>A record of a run on the grid of the given models, batch sizes and sequence lengths.\<close>

definition grid_record ::
  "(string \<Rightarrow> int option) \<Rightarrow> bool \<Rightarrow> bool \<Rightarrow> string list \<Rightarrow> int list \<Rightarrow> int list \<Rightarrow> result \<Rightarrow> bool"
  where
  "grid_record max_size use_gpu fp16 model_names batch_sizes sequence_lengths r \<longleftrightarrow>
     r_model_name r \<in> set model_names \<and>
     r_batch_size r \<in> set batch_sizes \<and> 0 < r_batch_size r \<and>
     r_sequence_length r \<in> set sequence_lengths \<and>
     \<not> exceeds (max_size (r_model_name r)) (r_sequence_length r) \<and>
     r_fp16 r = fp16 \<and> r_device r = (if use_gpu then ''cuda'' else ''cpu'')"

section \<open>An example machine\<close>

text \<open>
  A machine for the instances of the theorems. Its world records the sequence lengths of
  the inference calls that completed and how often the device memory cache was emptied.
  PyTorch is installed without CUDA and onnxruntime with the CPU provider only; every
  model has 1024 as its maximal input size and its files exist; the first inference on
  a sequence of length 32 completes and a later one raises \<open>RuntimeError\<close>, every other
  call completes. The durations carry no information: there is one float, no division fails and every number
  prints as \<open>0.00\<close>.
\<close>

record demo_world =
  sampled :: "int list"
  cache_emptied :: nat

definition demo_floats :: "unit float_lib" where
  "demo_floats =
     \<lparr> py_sum = (\<lambda>_. ()), float_of_len = (\<lambda>_. ()), float_1000 = (),
       float_is_zero = (\<lambda>_. False), float_div = (\<lambda>_ _. ()), float_mul = (\<lambda>_ _. ()),
       int_mul_float = (\<lambda>_ _. Inr ()), numpy_var = (\<lambda>_. ()), numpy_percentile = (\<lambda>_ _. ()),
       format_2f = (\<lambda>_. ''0.00'') \<rparr>"

definition demo_pretrained :: pretrained where
  "demo_pretrained =
     \<lparr> config_vocab_size = 50257, config_max_input_size = Some 1024,
       config_num_attention_heads = 12, config_hidden_size = 768, outputs_is_sequence = True \<rparr>"

definition demo_inference :: "int \<Rightarrow> (unit, demo_world) py" where
  "demo_inference sequence_length w =
     (if sequence_length = 32 \<and> 32 \<in> set (sampled w) then (Inl RuntimeError, w)
      else (Inr (), w\<lparr>sampled := sampled w @ [sequence_length]\<rparr>))"

definition demo_env :: "(unit, demo_world) env" where
  "demo_env =
     \<lparr> floats = demo_floats,
       is_torch_available = True,
       torch_cuda_is_available = False,
       torch_version = ''1.5.0'',
       onnxruntime_version = ''1.3.0'',
       get_available_providers = [''CPUExecutionProvider''],
       from_pretrained = (\<lambda>_ _ _ w. (Inr demo_pretrained, w)),
       model_to = (\<lambda>_ _ _ w. (Inr (), w)),
       torch_randint = (\<lambda>_ _ _ _ w. (Inr (), w)),
       jit_trace = (\<lambda>_ _ _ w. (Inr (), w)),
       inference = (\<lambda>_ _ _ sequence_length. demo_inference sequence_length),
       cuda_empty_cache = (\<lambda>w. w\<lparr>cache_emptied := Suc (cache_emptied w)\<rparr>),
       example_of_pretrained = (\<lambda>_ _ _ w. (Inr demo_pretrained, w)),
       path_exists = (\<lambda>_ _. True),
       os_mkdir = (\<lambda>_ w. (Inr (), w)),
       torch_onnx_export = (\<lambda>_ _ _ w. (Inr (), w)),
       inference_session = (\<lambda>_ _ _ w. (Inr (), w)),
       session_run_example = (\<lambda>_ w. (Inr (0, []), w)),
       optimize_model = (\<lambda>_ _ _ _ _ w. (Inr [], w)),
       save_model_to_file = (\<lambda>_ _ w. (Inr (), w)),
       numpy_randint = (\<lambda>_ _ _ w. (Inr (), w)),
       session_run = (\<lambda>_ _ _ sequence_length. demo_inference sequence_length),
       time_stamp = (\<lambda>_. ''20200101-000000'') \<rparr>"

definition demo_state :: "demo_world state" where
  "demo_state =
     \<lparr> world = \<lparr> sampled = [], cache_emptied = 0 \<rparr>, log = [], optimize_model_statistics = [],
       files = (\<lambda>_. None) \<rparr>"

definition demo_stats :: latency_result where
  "demo_stats =
     \<lparr> test_times = 2, latency_variance = ''0.00'', latency_90_percentile = ''0.00'',
       latency_95_percentile = ''0.00'', latency_99_percentile = ''0.00'',
       average_latency_ms = ''0.00'', QPS = ''0.00'' \<rparr>"


definition demo_result :: "string \<Rightarrow> pyval \<Rightarrow> result" where
  "demo_result engine_name opt =
     make_result engine_name (if engine_name = ''onnxruntime'' then ''1.3.0'' else ''1.5.0'')
       ''cpu'' opt False ''gpt2'' 1 1 8 demo_stats"

section \<open>Statements and loops\<close>

lemma py_bind_Inr:
  "py_bind m f s = (Inr b, s') \<longleftrightarrow> (\<exists>a s1. m s = (Inr a, s1) \<and> f a s1 = (Inr b, s'))"
  by (auto simp: py_bind_def split: prod.splits sum.splits)

lemma py_bind_Inl:
  "py_bind m f s = (Inl e, s') \<longleftrightarrow>
     m s = (Inl e, s') \<or> (\<exists>a s1. m s = (Inr a, s1) \<and> f a s1 = (Inl e, s'))"
  by (auto simp: py_bind_def split: prod.splits sum.splits)

lemma py_bind_cases:
  assumes "py_bind m f s = (r, s')"
  obtains (raised) e where "m s = (Inl e, s')" "r = Inl e"
        | (continued) a s1 where "m s = (Inr a, s1)" "f a s1 = (r, s')"
  using assms by (auto simp: py_bind_def split: prod.splits sum.splits)

lemma py_bind_step: "m s = (Inr a, s1) \<Longrightarrow> py_bind m f s = f a s1"
  by (simp add: py_bind_def)

lemma py_bind_raise: "m s = (Inl e, s1) \<Longrightarrow> py_bind m f s = (Inl e, s1)"
  by (simp add: py_bind_def)

lemma py_return_eq: "py_return a s = (r, s') \<longleftrightarrow> r = Inr a \<and> s' = s"
  by (auto simp: py_return_def)

lemma py_try_cases:
  assumes "py_try m handled h s = (r, s')"
  obtains (completed) a where "m s = (Inr a, s')" "r = Inr a"
        | (passed) e where "m s = (Inl e, s')" "\<not> handled e" "r = Inl e"
        | (caught) e s1 where "m s = (Inl e, s1)" "handled e" "h e s1 = (r, s')"
  using assms by (auto simp: py_try_def split: prod.splits sum.splits if_splits)

lemma logger_eq: "logger l s = (r, s') \<longleftrightarrow> r = Inr () \<and> s' = s\<lparr>log := log s @ [l]\<rparr>"
  by (auto simp: logger_def)

lemma external_eq:
  "external f s = (r, s') \<longleftrightarrow> (\<exists>w'. f (world s) = (r, w') \<and> s' = s\<lparr>world := w'\<rparr>)"
  by (auto simp: external_def split: prod.splits)

lemma py_lift_eq: "py_lift v s = (r, s') \<longleftrightarrow> r = v \<and> s' = s"
  by (auto simp: py_lift_def)

text \<open>A property of the accumulator that every iteration keeps holds after the loop.\<close>

lemma for_loop_acc_inv:
  assumes "for_loop body xs acc s = (Inr acc', s')"
    and "P acc"
    and "\<And>x a t a' t'. x \<in> set xs \<Longrightarrow> P a \<Longrightarrow> body x a t = (Inr a', t') \<Longrightarrow> P a'"
  shows "P acc'"
  using assms
proof (induction xs arbitrary: acc s)
  case Nil
  then show ?case by simp
next
  case (Cons x xs)
  from Cons.prems(1) obtain a1 s1 where
    b: "body x acc s = (Inr a1, s1)" and l: "for_loop body xs a1 s1 = (Inr acc', s')"
    by (auto split: prod.splits sum.splits)
  have "P a1" using Cons.prems(3)[OF _ Cons.prems(2) b] by simp
  with l Cons.IH Cons.prems(3) show ?case by (metis list.set_intros(2))
qed

text \<open>A property of the state that every iteration keeps, whatever its outcome, holds
  after the loop, whatever its outcome.\<close>

lemma for_loop_state_inv:
  assumes "for_loop body xs acc s = (r, s')"
    and "P s"
    and "\<And>x a t q t'. x \<in> set xs \<Longrightarrow> P t \<Longrightarrow> body x a t = (q, t') \<Longrightarrow> P t'"
  shows "P s'"
  using assms
proof (induction xs arbitrary: acc s)
  case Nil
  then show ?case by simp
next
  case (Cons x xs)
  obtain q s1 where b: "body x acc s = (q, s1)" by (cases "body x acc s")
  have p1: "P s1" using Cons.prems(3)[OF _ Cons.prems(2) b] by simp
  show ?case
  proof (cases q)
    case (Inl e)
    with b Cons.prems(1) have "s' = s1" by simp
    with p1 show ?thesis by simp
  next
    case (Inr a1)
    with b Cons.prems(1) have "for_loop body xs a1 s1 = (r, s')" by simp
    with p1 Cons.IH Cons.prems(3) show ?thesis by (metis list.set_intros(2))
  qed
qed

lemma for_loop_append:
  "for_loop body (xs @ ys) acc s =
     (case for_loop body xs acc s of
        (Inl e, s') \<Rightarrow> (Inl e, s')
      | (Inr acc', s') \<Rightarrow> for_loop body ys acc' s')"
  by (induction xs arbitrary: acc s) (auto split: prod.splits sum.splits)

lemma for_loop_cong:
  "(\<And>x a t. x \<in> set xs \<Longrightarrow> body x a t = body' x a t)
   \<Longrightarrow> for_loop body xs acc s = for_loop body' xs acc s"
  by (induction xs arbitrary: acc s) (auto split: prod.splits sum.splits)

text \<open>\<open>timeit.repeat\<close> keeps a property of the state that the statement keeps.\<close>

lemma timeit_repeat_nat_state_inv:
  assumes "timeit_repeat_nat stmt n s = (r, s')"
    and "P s"
    and "\<And>t q t'. P t \<Longrightarrow> stmt t = (q, t') \<Longrightarrow> P t'"
  shows "P s'"
  using assms
proof (induction n arbitrary: s r s')
  case 0
  then show ?case by simp
next
  case (Suc n)
  obtain q s1 where b: "stmt s = (q, s1)" by (cases "stmt s")
  have p1: "P s1" using Suc.prems(3)[OF Suc.prems(2) b] .
  show ?case
  proof (cases q)
    case (Inl e)
    with b Suc.prems(1) have "s' = s1" by simp
    with p1 show ?thesis by simp
  next
    case (Inr t)
    obtain q2 s2 where l: "timeit_repeat_nat stmt n s1 = (q2, s2)"
      by (cases "timeit_repeat_nat stmt n s1")
    have "P s2" using Suc.IH[OF l p1 Suc.prems(3)] .
    moreover have "s' = s2" using Suc.prems(1) b Inr l by (cases q2) auto
    ultimately show ?thesis by simp
  qed
qed

lemma timeit_repeat_nat_length:
  "timeit_repeat_nat stmt n s = (Inr ts, s') \<Longrightarrow> length ts = n"
  by (induction n arbitrary: s ts) (auto split: prod.splits sum.splits)

section \<open>The records of the Grid Runners\<close>

text \<open>One iteration over the sequence lengths leaves the records as they are or appends
  one record, for a sequence length that does not exceed the maximum.\<close>

lemma pytorch_sequence_length_results:
  assumes "pytorch_sequence_length E use_gpu fp16 repeat_times torchscript model_name config dev
             batch_size sequence_length results s = (Inr results', s')"
  shows "results' = results \<or>
         (\<not> exceeds (config_max_input_size config) sequence_length \<and>
          (\<exists>stats. results' = results @
             [make_result (if torchscript then ''torchscript'' else ''torch'') (torch_version E) dev
                (PyStr '''') fp16 model_name 1 batch_size sequence_length stats]))"
proof (cases "exceeds (config_max_input_size config) sequence_length")
  case True
  with assms show ?thesis by (simp add: pytorch_sequence_length_def py_return_eq)
next
  case False
  with assms obtain s1 where
    t: "py_try
          (py_bind (if torchscript
                    then py_bind (external (jit_trace E model_name batch_size sequence_length))
                           (\<lambda>_. external (inference E model_name True batch_size sequence_length))
                    else external (inference E model_name False batch_size sequence_length))
          (\<lambda>_. py_bind (timeit_repeat
                           (external (inference E model_name torchscript batch_size sequence_length))
                           repeat_times)
          (\<lambda>runtimes. py_bind (py_lift (get_latency_result (floats E) runtimes batch_size))
          (\<lambda>stats. py_return
             (results @ [make_result (if torchscript then ''torchscript'' else ''torch'')
                           (torch_version E) dev (PyStr '''') fp16 model_name 1 batch_size
                           sequence_length stats])))))
          (\<lambda>e. e = RuntimeError)
          (\<lambda>e. py_bind (logger (LogException e))
             (\<lambda>_. py_bind (\<lambda>s. (Inr (), s\<lparr>world := cuda_empty_cache E (world s)\<rparr>))
             (\<lambda>_. py_return results))) s1 = (Inr results', s')"
    by (auto simp: pytorch_sequence_length_def py_bind_Inr)
  from t show ?thesis
  proof (cases rule: py_try_cases)
    case (completed a)
    then show ?thesis using False by (auto simp: py_bind_Inr py_return_eq py_lift_eq)
  next
    case (passed e)
    then show ?thesis by simp
  next
    case (caught e s2)
    then show ?thesis by (auto simp: py_bind_Inr py_return_eq)
  qed
qed

text \<open>Every record of \<open>run_pytorch\<close> is a record of the grid.\<close>

lemma run_pytorch_records:
  assumes run: "run_pytorch E use_gpu model_names fp16 batch_sizes sequence_lengths repeat_times
                  torchscript cache_dir verbose s = (Inr results, s')"
    and sizes: "max_input_sizes E max_size \<or> max_size = (\<lambda>_. None)"
    and r: "r \<in> set results"
  shows "grid_record max_size use_gpu fp16 model_names batch_sizes sequence_lengths r"
proof -
  let ?R = "grid_record max_size use_gpu fp16 model_names batch_sizes sequence_lengths"
  let ?P = "\<lambda>rs. \<forall>r\<in>set rs. ?R r"
  have seq: "?P rs'"
    if "pytorch_sequence_length E use_gpu fp16 repeat_times torchscript model_name config
          (if use_gpu then ''cuda'' else ''cpu'') batch_size sequence_length rs t = (Inr rs', t')"
      and "?P rs" and "model_name \<in> set model_names"
      and "\<forall>sl. exceeds (max_size model_name) sl \<longrightarrow> exceeds (config_max_input_size config) sl"
      and "batch_size \<in> set batch_sizes" and "0 < batch_size"
      and "sequence_length \<in> set sequence_lengths"
    for model_name config batch_size sequence_length rs rs' t t'
    using pytorch_sequence_length_results[OF that(1)] that(2-)
    by (auto simp: grid_record_def make_result_def)
  have batch: "?P rs'"
    if b: "pytorch_batch_size E use_gpu fp16 sequence_lengths repeat_times torchscript model_name
          config batch_size rs t = (Inr rs', t')"
      and p: "?P rs" and m: "model_name \<in> set model_names"
      and f: "\<forall>sl. exceeds (max_size model_name) sl \<longrightarrow> exceeds (config_max_input_size config) sl"
      and bs: "batch_size \<in> set batch_sizes"
    for model_name config batch_size rs rs' t t'
  proof (cases "batch_size \<le> 0")
    case True
    with b p show ?thesis by (simp add: pytorch_batch_size_def py_return_eq)
  next
    case False
    with b obtain t1 where
      l: "for_loop (pytorch_sequence_length E use_gpu fp16 repeat_times torchscript model_name
                      config (if use_gpu then ''cuda'' else ''cpu'') batch_size)
            sequence_lengths rs t1 = (Inr rs', t')"
      by (auto simp: pytorch_batch_size_def py_bind_Inr Let_def)
    show ?thesis
      by (rule for_loop_acc_inv[where P = ?P, OF l p]) (insert seq m f bs False, fastforce)
  qed
  show ?thesis
  proof (cases "use_gpu \<and> \<not> torch_cuda_is_available E")
    case True
    with run r show ?thesis
      by (cases "is_torch_available E")
         (auto simp: run_pytorch_def py_bind_Inr py_return_eq logger_eq py_raise_def)
  next
    case False
    from run have "is_torch_available E"
      by (cases "is_torch_available E") (auto simp: run_pytorch_def py_raise_def)
    with run have
      "(if use_gpu \<and> \<not> torch_cuda_is_available E
        then py_bind (logger (LogError ''Please install PyTorch with Cuda, and use a machine with GPU for testing gpu performance.''))
               (\<lambda>_. py_return [])
        else for_loop
               (\<lambda>model_name results.
                  py_bind (external (from_pretrained E model_name torchscript cache_dir))
                    (\<lambda>config. for_loop (pytorch_batch_size E use_gpu fp16 sequence_lengths
                                          repeat_times torchscript model_name config)
                                batch_sizes results))
               model_names []) s = (Inr results, s')"
      unfolding run_pytorch_def by (simp only: if_False not_True_eq_False)
    with False have
      l: "for_loop
            (\<lambda>model_name results.
               py_bind (external (from_pretrained E model_name torchscript cache_dir))
                 (\<lambda>config. for_loop (pytorch_batch_size E use_gpu fp16 sequence_lengths
                                       repeat_times torchscript model_name config)
                             batch_sizes results))
            model_names [] s = (Inr results, s')"
      by (simp only: if_False)
    have "?P results"
    proof (rule for_loop_acc_inv[where P = ?P, OF l])
      show "?P []" by simp
    next
      fix x a t a' t'
      assume x: "x \<in> set model_names" and a: "?P a"
        and b: "py_bind (external (from_pretrained E x torchscript cache_dir))
                  (\<lambda>config. for_loop (pytorch_batch_size E use_gpu fp16 sequence_lengths
                                        repeat_times torchscript x config)
                              batch_sizes a) t = (Inr a', t')"
      from b obtain config t1 w' where
        f: "from_pretrained E x torchscript cache_dir (world t) = (Inr config, w')"
        and l2: "for_loop (pytorch_batch_size E use_gpu fp16 sequence_lengths repeat_times
                            torchscript x config) batch_sizes a t1 = (Inr a', t')"
        by (auto simp: py_bind_Inr external_eq)
      have c: "\<forall>sl. exceeds (max_size x) sl \<longrightarrow> exceeds (config_max_input_size config) sl"
      proof (cases "max_size = (\<lambda>_. None)")
        case True
        then show ?thesis by (simp add: exceeds_def)
      next
        case False
        with sizes have "max_input_sizes E max_size" by simp
        with f have "config_max_input_size config = max_size x"
          unfolding max_input_sizes_def by blast
        then show ?thesis by simp
      qed
      show "?P a'"
        by (rule for_loop_acc_inv[where P = ?P, OF l2 a]) (insert batch x c, blast)
    qed
    with r show ?thesis by simp
  qed
qed

text \<open>\<open>export_onnx_model\<close> returns the maximal input size that the loaders report.\<close>

lemma export_onnx_model_max_size:
  assumes "export_onnx_model E model_name cache_dir input_names fp16 optimize_onnx validate_onnx s
             = (Inr (onnx_model_file, is_valid, vocab_size, max_sequence_length), s')"
    and "max_input_sizes E max_size"
  shows "max_sequence_length = max_size model_name"
proof -
  from assms(1) obtain config w' where
    c: "example_of_pretrained E model_name cache_dir input_names (world s) = (Inr config, w')"
    and m: "max_sequence_length = config_max_input_size config"
    by (auto simp: export_onnx_model_def py_bind_Inr external_eq py_return_eq py_raise_def
                   Let_def split: if_splits)
  from c assms(2) have "config_max_input_size config = max_size model_name"
    unfolding max_input_sizes_def by blast
  with m show ?thesis by simp
qed

lemma onnxruntime_sequence_length_results:
  assumes "onnxruntime_sequence_length E use_gpu fp16 optimize_onnx repeat_times model_name
             num_inputs input_names onnx_model_file vocab_size max_sequence_length batch_size
             sequence_length results s = (Inr results', s')"
  shows "results' = results \<or>
         (\<not> exceeds max_sequence_length sequence_length \<and>
          (\<exists>stats. results' = results @
             [make_result ''onnxruntime'' (onnxruntime_version E)
                (if use_gpu then ''cuda'' else ''cpu'') (PyBool optimize_onnx) fp16 model_name
                num_inputs batch_size sequence_length stats]))"
  using assms
  by (cases "exceeds max_sequence_length sequence_length")
     (auto simp: onnxruntime_sequence_length_def py_bind_Inr py_return_eq py_lift_eq)

text \<open>Every record of \<open>run_onnxruntime\<close> is a record of the grid.\<close>

lemma run_onnxruntime_records:
  assumes run: "run_onnxruntime E use_gpu model_names fp16 batch_sizes sequence_lengths
                  repeat_times input_counts optimize_onnx validate_onnx cache_dir verbose s
                = (Inr results, s')"
    and sizes: "max_input_sizes E max_size \<or> max_size = (\<lambda>_. None)"
    and r: "r \<in> set results"
  shows "grid_record max_size use_gpu fp16 model_names batch_sizes sequence_lengths r"
proof -
  let ?R = "grid_record max_size use_gpu fp16 model_names batch_sizes sequence_lengths"
  let ?P = "\<lambda>rs. \<forall>r\<in>set rs. ?R r"
  have seq: "?P rs'"
    if "onnxruntime_sequence_length E use_gpu fp16 optimize_onnx repeat_times model_name
          num_inputs input_names onnx_model_file vocab_size max_sequence_length batch_size
          sequence_length rs t = (Inr rs', t')"
      and "?P rs" and "model_name \<in> set model_names"
      and "\<forall>sl. exceeds (max_size model_name) sl \<longrightarrow> exceeds max_sequence_length sl"
      and "batch_size \<in> set batch_sizes" and "0 < batch_size"
      and "sequence_length \<in> set sequence_lengths"
    for model_name num_inputs input_names onnx_model_file vocab_size max_sequence_length
      batch_size sequence_length rs rs' t t'
    using onnxruntime_sequence_length_results[OF that(1)] that(2-)
    by (auto simp: grid_record_def make_result_def)
  have batch: "?P rs'"
    if b: "onnxruntime_batch_size E use_gpu fp16 optimize_onnx repeat_times sequence_lengths
             model_name num_inputs input_names onnx_model_file vocab_size max_sequence_length
             batch_size rs t = (Inr rs', t')"
      and p: "?P rs" and m: "model_name \<in> set model_names"
      and f: "\<forall>sl. exceeds (max_size model_name) sl \<longrightarrow> exceeds max_sequence_length sl"
      and bs: "batch_size \<in> set batch_sizes"
    for model_name num_inputs input_names onnx_model_file vocab_size max_sequence_length
      batch_size rs rs' t t'
  proof (cases "batch_size \<le> 0")
    case True
    with b p show ?thesis by (simp add: onnxruntime_batch_size_def py_return_eq)
  next
    case False
    with b have
      l: "for_loop (onnxruntime_sequence_length E use_gpu fp16 optimize_onnx repeat_times
                      model_name num_inputs input_names onnx_model_file vocab_size
                      max_sequence_length batch_size)
            sequence_lengths rs t = (Inr rs', t')"
      by (simp add: onnxruntime_batch_size_def)
    show ?thesis
      by (rule for_loop_acc_inv[where P = ?P, OF l p]) (insert seq m f bs False, fastforce)
  qed
  have inputs: "?P rs'"
    if n: "onnxruntime_num_inputs E use_gpu fp16 batch_sizes sequence_lengths repeat_times
             optimize_onnx validate_onnx cache_dir model_name all_input_names num_inputs rs t
           = (Inr rs', t')"
      and p: "?P rs" and m: "model_name \<in> set model_names"
    for model_name all_input_names num_inputs rs rs' t t'
  proof (cases "num_inputs > int (length all_input_names)")
    case True
    with n p show ?thesis by (simp add: onnxruntime_num_inputs_def py_return_eq)
  next
    case False
    with n obtain onnx_model_file is_valid vocab_size max_sequence_length t1 where
      e: "export_onnx_model E model_name cache_dir (slice_to all_input_names num_inputs) fp16
            optimize_onnx validate_onnx t
          = (Inr (onnx_model_file, is_valid, vocab_size, max_sequence_length), t1)"
      and rest: "(if \<not> is_valid then py_return rs
                  else py_bind (create_onnxruntime_session E onnx_model_file use_gpu)
                         (\<lambda>ort_session.
                            if ort_session = None then py_return rs
                            else for_loop (onnxruntime_batch_size E use_gpu fp16 optimize_onnx
                                             repeat_times sequence_lengths model_name num_inputs
                                             (slice_to all_input_names num_inputs) onnx_model_file
                                             vocab_size max_sequence_length)
                                   batch_sizes rs)) t1 = (Inr rs', t')"
      by (auto simp: onnxruntime_num_inputs_def py_bind_Inr py_raise_def Let_def
               split: if_splits)
    have mx: "\<forall>sl. exceeds (max_size model_name) sl \<longrightarrow> exceeds max_sequence_length sl"
    proof (cases "max_size = (\<lambda>_. None)")
      case True
      then show ?thesis by (simp add: exceeds_def)
    next
      case False
      with sizes have "max_input_sizes E max_size" by simp
      from export_onnx_model_max_size[OF e this] show ?thesis by simp
    qed
    show ?thesis
    proof (cases is_valid)
      case False
      with rest p show ?thesis by (simp add: py_return_eq)
    next
      case True
      with rest obtain ort_session :: "string option" and t2 where
        l: "(if ort_session = None then py_return rs
             else for_loop (onnxruntime_batch_size E use_gpu fp16 optimize_onnx repeat_times
                              sequence_lengths model_name num_inputs
                              (slice_to all_input_names num_inputs) onnx_model_file vocab_size
                              max_sequence_length)
                    batch_sizes rs) t2 = (Inr rs', t')"
        by (auto simp: py_bind_Inr)
      show ?thesis
      proof (cases "ort_session = None")
        case True
        with l p show ?thesis by (simp add: py_return_eq)
      next
        case False
        with l have
          l2: "for_loop (onnxruntime_batch_size E use_gpu fp16 optimize_onnx repeat_times
                           sequence_lengths model_name num_inputs
                           (slice_to all_input_names num_inputs) onnx_model_file vocab_size
                           max_sequence_length)
                 batch_sizes rs t2 = (Inr rs', t')"
          by simp
        show ?thesis
          by (rule for_loop_acc_inv[where P = ?P, OF l2 p]) (insert batch m mx, blast)
      qed
    qed
  qed
  show ?thesis
  proof (cases "use_gpu \<and> ''CUDAExecutionProvider'' \<notin> set (get_available_providers E)")
    case True
    with run r show ?thesis
      by (auto simp: run_onnxruntime_def py_bind_Inr py_return_eq logger_eq)
  next
    case False
    with run obtain t1 where
      l: "for_loop
            (\<lambda>model_name results.
               py_bind (dict_get MODELS model_name)
                 (\<lambda>entry. for_loop
                             (onnxruntime_num_inputs E use_gpu fp16 batch_sizes sequence_lengths
                                repeat_times optimize_onnx validate_onnx cache_dir model_name
                                (fst entry))
                             input_counts results))
            model_names [] t1 = (Inr results, s')"
      by (auto simp: run_onnxruntime_def py_bind_Inr)
    have "?P results"
    proof (rule for_loop_acc_inv[where P = ?P, OF l])
      show "?P []" by simp
    next
      fix x a t a' t'
      assume x: "x \<in> set model_names" and a: "?P a"
        and b: "py_bind (dict_get MODELS x)
                  (\<lambda>entry. for_loop
                              (onnxruntime_num_inputs E use_gpu fp16 batch_sizes sequence_lengths
                                 repeat_times optimize_onnx validate_onnx cache_dir x (fst entry))
                              input_counts a) t = (Inr a', t')"
      from b obtain entry :: "string list \<times> int \<times> string" and t1 where
        l2: "for_loop (onnxruntime_num_inputs E use_gpu fp16 batch_sizes sequence_lengths
                         repeat_times optimize_onnx validate_onnx cache_dir x (fst entry))
               input_counts a t1 = (Inr a', t')"
        by (auto simp: py_bind_Inr)
      show "?P a'"
        by (rule for_loop_acc_inv[where P = ?P, OF l2 a]) (insert inputs x, blast)
    qed
    with r show ?thesis by simp
  qed
qed


section \<open>The example machine\<close>

lemmas monad_defs = py_bind_def py_return_def py_raise_def py_try_def py_lift_def external_def
  logger_def timeit_repeat_def Let_def

lemma demo_env_sel:
  "floats demo_env = demo_floats"
  "is_torch_available demo_env = True"
  "torch_cuda_is_available demo_env = False"
  "torch_version demo_env = ''1.5.0''"
  "onnxruntime_version demo_env = ''1.3.0''"
  "get_available_providers demo_env = [''CPUExecutionProvider'']"
  "from_pretrained demo_env m ts c w = (Inr demo_pretrained, w)"
  "model_to demo_env m f d w = (Inr (), w)"
  "torch_randint demo_env h b sl d w = (Inr (), w)"
  "jit_trace demo_env m b sl w = (Inr (), w)"
  "inference demo_env m ts b sl = demo_inference sl"
  "cuda_empty_cache demo_env w = w\<lparr>cache_emptied := Suc (cache_emptied w)\<rparr>"
  "example_of_pretrained demo_env m c ns w = (Inr demo_pretrained, w)"
  "path_exists demo_env p w = True"
  "os_mkdir demo_env p w = (Inr (), w)"
  "torch_onnx_export demo_env m p ns w = (Inr (), w)"
  "inference_session demo_env p g ps w = (Inr (), w)"
  "session_run_example demo_env p w = (Inr (0, []), w)"
  "optimize_model demo_env p t h z only w = (Inr [], w)"
  "save_model_to_file demo_env p f w = (Inr (), w)"
  "numpy_randint demo_env h b sl w = (Inr (), w)"
  "session_run demo_env p ns b sl = demo_inference sl"
  "time_stamp demo_env w = ''20200101-000000''"
  by (simp_all add: demo_env_def)

lemmas demo_defs = demo_env_sel demo_floats_def demo_pretrained_def demo_inference_def
  demo_state_def demo_stats_def demo_result_def

lemmas pytorch_defs = run_pytorch_def pytorch_batch_size_def pytorch_sequence_length_def
  exceeds_def get_latency_result_def latency_ms_of_def make_result_def

lemmas onnxruntime_defs = run_onnxruntime_def onnxruntime_num_inputs_def
  onnxruntime_batch_size_def onnxruntime_sequence_length_def export_onnx_model_def
  create_onnxruntime_session_def create_onnxruntime_input_def dict_get_def MODELS_def
  slice_to_def exceeds_def get_latency_result_def latency_ms_of_def make_result_def

lemma demo_max_input_sizes: "max_input_sizes demo_env (\<lambda>_. Some 1024)"
  by (simp add: max_input_sizes_def demo_env_sel demo_pretrained_def)

text \<open>The PyTorch runner on the example machine: batch size 0 and sequence length 2048 are
  skipped, and the warm-up call and two timed calls are made on sequence length 8.\<close>

lemma demo_run_pytorch:
  "run_pytorch demo_env False [''gpt2''] False [0, 1] [8, 2048] 2 False ''./cache_models'' False
     demo_state
   = (Inr [demo_result ''torch'' (PyStr '''')],
      demo_state\<lparr>world := \<lparr>sampled = [8, 8, 8], cache_emptied = 0\<rparr>\<rparr>)"
  by (simp add: pytorch_defs monad_defs demo_defs eval_nat_numeral)

section \<open>Skipped combinations\<close>

text \<open>A loop does not depend on the elements at which its body does nothing.\<close>

lemma for_loop_filter:
  assumes "\<And>x a t. x \<in> set xs \<Longrightarrow> \<not> keep x \<Longrightarrow> body x a t = (Inr a, t)"
  shows "for_loop body (filter keep xs) = for_loop body xs"
proof (intro ext)
  fix acc s
  from assms show "for_loop body (filter keep xs) acc s = for_loop body xs acc s"
  proof (induction xs arbitrary: acc s)
    case Nil
    then show ?case by simp
  next
    case (Cons x xs)
    then show ?case by (cases "keep x") (auto split: prod.splits sum.splits)
  qed
qed

lemma pytorch_skips_sequence_lengths:
  "pytorch_batch_size E use_gpu fp16
     (filter (\<lambda>sl. \<not> exceeds (config_max_input_size config) sl) sequence_lengths)
     repeat_times torchscript model_name config batch_size
   = pytorch_batch_size E use_gpu fp16 sequence_lengths repeat_times torchscript model_name config
       batch_size"
proof -
  have "for_loop (pytorch_sequence_length E use_gpu fp16 repeat_times torchscript model_name
                    config dev batch_size)
          (filter (\<lambda>sl. \<not> exceeds (config_max_input_size config) sl) sequence_lengths)
        = for_loop (pytorch_sequence_length E use_gpu fp16 repeat_times torchscript model_name
                      config dev batch_size) sequence_lengths" for dev
    by (rule for_loop_filter) (simp add: pytorch_sequence_length_def py_return_def)
  then show ?thesis by (intro ext) (simp add: pytorch_batch_size_def)
qed

lemma pytorch_skips_batch_sizes:
  "run_pytorch E use_gpu model_names fp16 (filter (\<lambda>b. 0 < b) batch_sizes) sequence_lengths
     repeat_times torchscript cache_dir verbose
   = run_pytorch E use_gpu model_names fp16 batch_sizes sequence_lengths repeat_times torchscript
       cache_dir verbose"
proof -
  have "for_loop (pytorch_batch_size E use_gpu fp16 sequence_lengths repeat_times torchscript
                    model_name config) (filter (\<lambda>b. 0 < b) batch_sizes)
        = for_loop (pytorch_batch_size E use_gpu fp16 sequence_lengths repeat_times torchscript
                      model_name config) batch_sizes" for model_name config
    by (rule for_loop_filter) (simp add: pytorch_batch_size_def py_return_def)
  then show ?thesis by (simp add: run_pytorch_def)
qed

lemma onnxruntime_skips_sequence_lengths:
  "onnxruntime_batch_size E use_gpu fp16 optimize_onnx repeat_times
     (filter (\<lambda>sl. \<not> exceeds max_sequence_length sl) sequence_lengths) model_name num_inputs
     input_names onnx_model_file vocab_size max_sequence_length batch_size
   = onnxruntime_batch_size E use_gpu fp16 optimize_onnx repeat_times sequence_lengths model_name
       num_inputs input_names onnx_model_file vocab_size max_sequence_length batch_size"
proof -
  have "for_loop (onnxruntime_sequence_length E use_gpu fp16 optimize_onnx repeat_times
                    model_name num_inputs input_names onnx_model_file vocab_size
                    max_sequence_length batch_size)
          (filter (\<lambda>sl. \<not> exceeds max_sequence_length sl) sequence_lengths)
        = for_loop (onnxruntime_sequence_length E use_gpu fp16 optimize_onnx repeat_times
                      model_name num_inputs input_names onnx_model_file vocab_size
                      max_sequence_length batch_size) sequence_lengths"
    by (rule for_loop_filter) (simp add: onnxruntime_sequence_length_def py_return_def)
  then show ?thesis by (intro ext) (simp add: onnxruntime_batch_size_def)
qed

lemma onnxruntime_skips_batch_sizes:
  "run_onnxruntime E use_gpu model_names fp16 (filter (\<lambda>b. 0 < b) batch_sizes) sequence_lengths
     repeat_times input_counts optimize_onnx validate_onnx cache_dir verbose
   = run_onnxruntime E use_gpu model_names fp16 batch_sizes sequence_lengths repeat_times
       input_counts optimize_onnx validate_onnx cache_dir verbose"
proof -
  have e: "for_loop (onnxruntime_batch_size E use_gpu fp16 optimize_onnx repeat_times
                    sequence_lengths model_name num_inputs input_names onnx_model_file vocab_size
                    max_sequence_length) (filter (\<lambda>b. 0 < b) batch_sizes)
        = for_loop (onnxruntime_batch_size E use_gpu fp16 optimize_onnx repeat_times
                      sequence_lengths model_name num_inputs input_names onnx_model_file
                      vocab_size max_sequence_length) batch_sizes"
    for model_name num_inputs input_names onnx_model_file vocab_size max_sequence_length
    by (rule for_loop_filter) (simp add: onnxruntime_batch_size_def py_return_def)
  have n: "onnxruntime_num_inputs E use_gpu fp16 (filter (\<lambda>b. 0 < b) batch_sizes)
               sequence_lengths repeat_times optimize_onnx validate_onnx cache_dir model_name
               all_input_names
             = onnxruntime_num_inputs E use_gpu fp16 batch_sizes sequence_lengths repeat_times
                 optimize_onnx validate_onnx cache_dir model_name all_input_names"
    for model_name all_input_names
    by (intro ext) (simp add: onnxruntime_num_inputs_def Let_def e cong: if_cong)
  show ?thesis by (simp add: run_onnxruntime_def n)
qed

section \<open>The records of the grid runners are within the bounds\<close>

text \<open>
  Claim C4. Let the loaders report the maximal input sizes of the table \<open>max_size\<close>. Every
  record that \<open>run_pytorch\<close> or \<open>run_onnxruntime\<close> returns has a batch size above 0 and,
  when the maximal input size of its model is known, a sequence length that is at most
  that size. The combinations that violate a bound are skipped without a record, a log
  record or an exception: each runner does the same on the batch sizes as on the batch
  sizes above 0, and for each model and batch size the same on the sequence lengths as on
  those that do not exceed the maximal input size.
\<close>

theorem grid_runner_records:
  assumes "max_input_sizes E max_size"
    and "run_pytorch E use_gpu model_names fp16 batch_sizes sequence_lengths repeat_times
           torchscript cache_dir verbose s = (Inr results, s')
         \<or> run_onnxruntime E use_gpu model_names fp16 batch_sizes sequence_lengths repeat_times
             input_counts optimize_onnx validate_onnx cache_dir verbose s = (Inr results, s')"
    and "r \<in> set results"
  shows "0 < r_batch_size r
       \<and> (\<forall>m. max_size (r_model_name r) = Some m \<longrightarrow> r_sequence_length r \<le> m)
       \<and> run_pytorch E use_gpu model_names fp16 (filter (\<lambda>b. 0 < b) batch_sizes)
           sequence_lengths repeat_times torchscript cache_dir verbose
         = run_pytorch E use_gpu model_names fp16 batch_sizes sequence_lengths repeat_times
             torchscript cache_dir verbose
       \<and> run_onnxruntime E use_gpu model_names fp16 (filter (\<lambda>b. 0 < b) batch_sizes)
           sequence_lengths repeat_times input_counts optimize_onnx validate_onnx cache_dir verbose
         = run_onnxruntime E use_gpu model_names fp16 batch_sizes sequence_lengths repeat_times
             input_counts optimize_onnx validate_onnx cache_dir verbose
       \<and> pytorch_batch_size E use_gpu fp16
           (filter (\<lambda>sl. \<not> exceeds (config_max_input_size config) sl) sequence_lengths)
           repeat_times torchscript model_name config batch_size
         = pytorch_batch_size E use_gpu fp16 sequence_lengths repeat_times torchscript model_name
             config batch_size
       \<and> onnxruntime_batch_size E use_gpu fp16 optimize_onnx repeat_times
           (filter (\<lambda>sl. \<not> exceeds max_sequence_length sl) sequence_lengths) model_name
           num_inputs input_names onnx_model_file vocab_size max_sequence_length batch_size
         = onnxruntime_batch_size E use_gpu fp16 optimize_onnx repeat_times sequence_lengths
             model_name num_inputs input_names onnx_model_file vocab_size max_sequence_length
             batch_size"
proof -
  from assms have "grid_record max_size use_gpu fp16 model_names batch_sizes sequence_lengths r"
    by (auto dest: run_pytorch_records run_onnxruntime_records)
  then have "0 < r_batch_size r"
    and "\<forall>m. max_size (r_model_name r) = Some m \<longrightarrow> r_sequence_length r \<le> m"
    by (auto simp: grid_record_def exceeds_def)
  then show ?thesis
    by (simp only: pytorch_skips_batch_sizes onnxruntime_skips_batch_sizes
          pytorch_skips_sequence_lengths onnxruntime_skips_sequence_lengths simp_thms)
qed

text \<open>On the example machine the batch size 0 and the sequence length 2048 are skipped.\<close>

theorem grid_runner_records_witness:
  "max_input_sizes demo_env (\<lambda>_. Some 1024)
   \<and> run_pytorch demo_env False [''gpt2''] False [0, 1] [8, 2048] 2 False ''./cache_models''
       False demo_state
     = (Inr [demo_result ''torch'' (PyStr '''')],
        demo_state\<lparr>world := \<lparr>sampled = [8, 8, 8], cache_emptied = 0\<rparr>\<rparr>)
   \<and> 0 < r_batch_size (demo_result ''torch'' (PyStr ''''))
   \<and> r_sequence_length (demo_result ''torch'' (PyStr '''')) \<le> 1024"
  using grid_runner_records[OF demo_max_input_sizes disjI1[OF demo_run_pytorch],
          of "demo_result ''torch'' (PyStr '''')"]
    demo_max_input_sizes demo_run_pytorch
  by simp

section \<open>Half precision is for the GPU only\<close>




end
